theory Spec2Isabelle
  imports Complex_Main "HOL-Library.Stream"
begin

section \<open>The synthetic measurement generator of \<^verbatim>\<open>data_generator.py\<close>\<close>

text \<open>
  The embedding follows \<^verbatim>\<open>generate_antibacterial_data\<close>. Numbers that the source
  holds as float64 are modelled as \<^typ>\<open>real\<close>: the arithmetic is the exact one, without
  the rounding error of the machine operations. Everything the function takes from its
  environment is a field of an explicit \<open>world\<close>: the state of numpy's global random
  source, the state of Python's \<^verbatim>\<open>random\<close> module, the clock read by
  \<^verbatim>\<open>datetime.now()\<close>, the file system written by \<^verbatim>\<open>to_csv\<close> and the
  standard output written by \<^verbatim>\<open>print\<close>.
\<close>

subsection \<open>Data\<close>

datatype error = KeyError string | ValueError string

text \<open>One row of the data frame; the field names are the column names of the source.
  A datetime is a number of microseconds.\<close>

record measurement =
  Plant_Extract :: string
  Bacteria :: string
  Concentration_mg_mL :: int
  Replicate :: int
  Inhibition_Zone_mm :: real
  Activity_Level :: string
  Test_Date :: int

text \<open>The value of one entry of \<^verbatim>\<open>plant_effectiveness\<close>:
  \<^verbatim>\<open>{'base': ..., 'variance': ...}\<close>.\<close>

record profile =
  base :: real
  variance :: real

text \<open>
  A random source is the sequence of the draws it will give: standard normal deviates
  for numpy's generator, raw uniform naturals for Python's. The clock is the sequence of
  the readings that successive calls of \<^verbatim>\<open>datetime.now()\<close> return. A file holds
  the rows written to it (the text serialisation is not modelled).
\<close>

record world =
  np_random :: "real stream"
  py_random :: "nat stream"
  clock :: "int stream"
  files :: "string \<rightharpoonup> measurement list"
  stdout :: "string list"

subsection \<open>The tables of the source\<close>

definition plant_extracts :: "string list" where
  "plant_extracts =
    [''Garlic (Allium sativum)'',
     ''Tea Tree (Melaleuca alternifolia)'',
     ''Oregano (Origanum vulgare)'',
     ''Thyme (Thymus vulgaris)'',
     ''Eucalyptus (Eucalyptus globulus)'',
     ''Neem (Azadirachta indica)'',
     ''Turmeric (Curcuma longa)'',
     ''Ginger (Zingiber officinale)'',
     ''Cinnamon (Cinnamomum verum)'',
     ''Clove (Syzygium aromaticum)'']"

definition bacteria :: "string list" where
  "bacteria =
    [''Escherichia coli'',
     ''Staphylococcus aureus'',
     ''Streptococcus pyogenes'',
     ''Pseudomonas aeruginosa'',
     ''Bacillus subtilis'',
     ''Salmonella typhimurium'',
     ''Enterococcus faecalis'',
     ''Klebsiella pneumoniae'']"

definition concentrations :: "int list" where
  "concentrations = [10, 25, 50, 100, 200]"

definition plant_effectiveness :: "string \<rightharpoonup> profile" where
  "plant_effectiveness = map_of
    [(''Garlic (Allium sativum)'', \<lparr>base = 15, variance = 5\<rparr>),
     (''Tea Tree (Melaleuca alternifolia)'', \<lparr>base = 18, variance = 4\<rparr>),
     (''Oregano (Origanum vulgare)'', \<lparr>base = 16, variance = 3\<rparr>),
     (''Thyme (Thymus vulgaris)'', \<lparr>base = 17, variance = 4\<rparr>),
     (''Eucalyptus (Eucalyptus globulus)'', \<lparr>base = 12, variance = 6\<rparr>),
     (''Neem (Azadirachta indica)'', \<lparr>base = 14, variance = 5\<rparr>),
     (''Turmeric (Curcuma longa)'', \<lparr>base = 10, variance = 4\<rparr>),
     (''Ginger (Zingiber officinale)'', \<lparr>base = 8, variance = 3\<rparr>),
     (''Cinnamon (Cinnamomum verum)'', \<lparr>base = 13, variance = 4\<rparr>),
     (''Clove (Syzygium aromaticum)'', \<lparr>base = 19, variance = 3\<rparr>)]"

definition bacterial_resistance :: "string \<rightharpoonup> real" where
  "bacterial_resistance = map_of
    [(''Escherichia coli'', 1),
     (''Staphylococcus aureus'', 8 / 10),
     (''Streptococcus pyogenes'', 12 / 10),
     (''Pseudomonas aeruginosa'', 6 / 10),
     (''Bacillus subtilis'', 14 / 10),
     (''Salmonella typhimurium'', 9 / 10),
     (''Enterococcus faecalis'', 7 / 10),
     (''Klebsiella pneumoniae'', 8 / 10)]"

text \<open>\<^verbatim>\<open>range(3)\<close>.\<close>

definition replicates :: "int list" where
  "replicates = [0, 1, 2]"

subsection \<open>Library calls\<close>

text \<open>
  \<^verbatim>\<open>np.random.normal(loc, scale)\<close> raises ValueError on a negative scale and
  otherwise returns \<open>loc + scale * z\<close> for the next standard normal deviate \<open>z\<close>.
\<close>

definition normal :: "real \<Rightarrow> real \<Rightarrow> world \<Rightarrow> error + (real \<times> world)" where
  "normal loc scale w =
     (if scale < 0 then Inl (ValueError ''scale < 0'')
      else Inr (loc + scale * shd (np_random w), w\<lparr>np_random := stl (np_random w)\<rparr>))"

text \<open>
  \<^verbatim>\<open>random.randint(a, b)\<close> raises ValueError on an empty range and otherwise
  returns an integer of \<open>a..b\<close>, here the next raw draw reduced to the width of the range.
\<close>

definition randint :: "int \<Rightarrow> int \<Rightarrow> world \<Rightarrow> error + (int \<times> world)" where
  "randint a b w =
     (if b < a then Inl (ValueError ''empty range for randrange()'')
      else Inr (a + int (shd (py_random w) mod nat (b - a + 1)),
                w\<lparr>py_random := stl (py_random w)\<rparr>))"

definition now :: "world \<Rightarrow> int \<times> world" where
  "now w = (shd (clock w), w\<lparr>clock := stl (clock w)\<rparr>)"

text \<open>\<^verbatim>\<open>timedelta(days=d)\<close> in microseconds.\<close>

definition timedelta_days :: "int \<Rightarrow> int" where
  "timedelta_days d = d * 86400000000"

text \<open>
  \<^verbatim>\<open>round(x, 2)\<close> on a numpy float is \<^verbatim>\<open>rint(x * 100) / 100\<close>, and
  \<^verbatim>\<open>rint\<close> rounds to the nearest integer, a tie to the even one.
\<close>

definition rint :: "real \<Rightarrow> int" where
  "rint x =
     (let f = \<lfloor>x\<rfloor>; d = x - of_int f
      in if d < 1 / 2 then f
         else if 1 / 2 < d then f + 1
         else if even f then f else f + 1)"

definition round2 :: "real \<Rightarrow> real" where
  "round2 x = of_int (rint (x * 100)) / 100"

text \<open>\<^verbatim>\<open>df.to_csv(name, index=False)\<close> replaces the file \<open>name\<close> by the rows of \<open>df\<close>.\<close>

definition to_csv :: "measurement list \<Rightarrow> string \<Rightarrow> world \<Rightarrow> world" where
  "to_csv df name w = w\<lparr>files := (files w)(name \<mapsto> df)\<rparr>"

definition print :: "string \<Rightarrow> world \<Rightarrow> world" where
  "print line w = w\<lparr>stdout := stdout w @ [line]\<rparr>"

text \<open>The decimal text of a natural number, for the f-string of the first \<^verbatim>\<open>print\<close>.\<close>

fun str_nat :: "nat \<Rightarrow> string" where
  "str_nat n =
     (if n < 10 then [''0123456789'' ! n]
      else str_nat (n div 10) @ [''0123456789'' ! (n mod 10)])"

subsection \<open>The steps of one iteration\<close>

text \<open>Line 78: \<^verbatim>\<open>conc_effect = np.log10(concentration / 10) * 3\<close>. The model is the
  source's for a positive concentration (numpy gives \<^verbatim>\<open>-inf\<close> at 0 and
  \<^verbatim>\<open>nan\<close> below, which \<^typ>\<open>real\<close> does not have); every concentration of
  the table is positive.\<close>

definition conc_effect :: "int \<Rightarrow> real" where
  "conc_effect concentration = log 10 (real_of_int concentration / 10) * 3"

text \<open>Lines 81 to 85, given the noise that line 82 drew:
  \<^verbatim>\<open>inhibition_zone = (base_effectiveness + conc_effect) * resistance_factor\<close>,
  \<^verbatim>\<open>inhibition_zone += noise\<close>, \<^verbatim>\<open>inhibition_zone = max(0, inhibition_zone)\<close>.\<close>

definition inhibition_zone :: "real \<Rightarrow> int \<Rightarrow> real \<Rightarrow> real \<Rightarrow> real" where
  "inhibition_zone base_effectiveness concentration resistance_factor noise =
     max 0 ((base_effectiveness + conc_effect concentration) * resistance_factor + noise)"

text \<open>Lines 88 to 95, the \<^verbatim>\<open>if/elif\<close> chain on \<^verbatim>\<open>inhibition_zone\<close>.\<close>

definition activity_level :: "real \<Rightarrow> string" where
  "activity_level z =
     (if z \<ge> 20 then ''High''
      else if z \<ge> 15 then ''Moderate''
      else if z \<ge> 10 then ''Low''
      else ''None'')"

text \<open>
  The body of the innermost loop, lines 73 to 105 (\<open>rep\<close> is the source's
  \<^verbatim>\<open>replicate\<close>). The two dictionary lookups raise
  KeyError on a missing key. The row is appended to \<open>data\<close>; its tier is computed from
  \<open>inhibition_zone\<close> as it is after line 85, and the stored value is that value rounded
  at line 102.
\<close>

fun loop_body ::
  "string \<Rightarrow> string \<Rightarrow> int \<Rightarrow> int \<Rightarrow> measurement list \<times> world \<Rightarrow>
   error + (measurement list \<times> world)" where
  "loop_body plant bacterium concentration rep (data, w) =
     (case plant_effectiveness plant of
        None \<Rightarrow> Inl (KeyError plant)
      | Some prof \<Rightarrow>
          (case bacterial_resistance bacterium of
             None \<Rightarrow> Inl (KeyError bacterium)
           | Some resistance_factor \<Rightarrow>
               (case normal 0 (variance prof) w of
                  Inl e \<Rightarrow> Inl e
                | Inr (noise, w1) \<Rightarrow>
                    (let z = inhibition_zone (base prof) concentration resistance_factor noise;
                         level = activity_level z;
                         (t, w2) = now w1
                     in (case randint 1 30 w2 of
                           Inl e \<Rightarrow> Inl e
                         | Inr (d, w3) \<Rightarrow>
                             Inr (data @
                                  [\<lparr>Plant_Extract = plant,
                                    Bacteria = bacterium,
                                    Concentration_mg_mL = concentration,
                                    Replicate = rep + 1,
                                    Inhibition_Zone_mm = round2 z,
                                    Activity_Level = level,
                                    Test_Date = t - timedelta_days d\<rparr>], w3))))))"

subsection \<open>The four nested loops\<close>

fun replicate_loop ::
  "string \<Rightarrow> string \<Rightarrow> int \<Rightarrow> int list \<Rightarrow> measurement list \<times> world \<Rightarrow>
   error + (measurement list \<times> world)" where
  "replicate_loop plant bacterium concentration [] s = Inr s"
| "replicate_loop plant bacterium concentration (rep # rs) s =
     (case loop_body plant bacterium concentration rep s of
        Inl e \<Rightarrow> Inl e
      | Inr s' \<Rightarrow> replicate_loop plant bacterium concentration rs s')"

fun concentration_loop ::
  "string \<Rightarrow> string \<Rightarrow> int list \<Rightarrow> measurement list \<times> world \<Rightarrow>
   error + (measurement list \<times> world)" where
  "concentration_loop plant bacterium [] s = Inr s"
| "concentration_loop plant bacterium (concentration # cs) s =
     (case replicate_loop plant bacterium concentration replicates s of
        Inl e \<Rightarrow> Inl e
      | Inr s' \<Rightarrow> concentration_loop plant bacterium cs s')"

fun bacteria_loop ::
  "string \<Rightarrow> string list \<Rightarrow> int list \<Rightarrow> measurement list \<times> world \<Rightarrow>
   error + (measurement list \<times> world)" where
  "bacteria_loop plant [] cs s = Inr s"
| "bacteria_loop plant (bacterium # bs) cs s =
     (case concentration_loop plant bacterium cs s of
        Inl e \<Rightarrow> Inl e
      | Inr s' \<Rightarrow> bacteria_loop plant bs cs s')"

fun plant_loop ::
  "string list \<Rightarrow> string list \<Rightarrow> int list \<Rightarrow> measurement list \<times> world \<Rightarrow>
   error + (measurement list \<times> world)" where
  "plant_loop [] bs cs s = Inr s"
| "plant_loop (plant # ps) bs cs s =
     (case bacteria_loop plant bs cs s of
        Inl e \<Rightarrow> Inl e
      | Inr s' \<Rightarrow> plant_loop ps bs cs s')"

subsection \<open>The generator\<close>

text \<open>
  The function with the three catalogs it iterates over as arguments: \<open>data = []\<close>, the
  loops, then lines 107 to 111. An exception leaves the function before the file is
  written.
\<close>

definition generate_with ::
  "string list \<Rightarrow> string list \<Rightarrow> int list \<Rightarrow> world \<Rightarrow> error + (measurement list \<times> world)" where
  "generate_with ps bs cs w =
     (case plant_loop ps bs cs ([], w) of
        Inl e \<Rightarrow> Inl e
      | Inr (df, w1) \<Rightarrow>
          (let w2 = to_csv df ''antibacterial_data.csv'' w1;
               w3 = print (''Generated '' @ str_nat (length df) @ '' data points'') w2;
               w4 = print (''Data saved to '' @ [CHR 0x27] @ ''antibacterial_data.csv'' @ [CHR 0x27]) w3
           in Inr (df, w4)))"

text \<open>The source binds the catalogs to its own literals.\<close>

definition generate_antibacterial_data :: "world \<Rightarrow> error + (measurement list \<times> world)" where
  "generate_antibacterial_data w = generate_with plant_extracts bacteria concentrations w"

subsection \<open>What one run yields, as a function of the draws\<close>

text \<open>
  The definitions of this part describe the result of a run directly; the lemmas below
  prove that the loops compute it. A cell is one combination
  (plant, bacterium, concentration, replicate) in the order in which the loops visit them.
\<close>

type_synonym cell = "string \<times> string \<times> int \<times> int"

definition cells_of :: "string list \<Rightarrow> string list \<Rightarrow> int list \<Rightarrow> cell list" where
  "cells_of ps bs cs = List.product ps (List.product bs (List.product cs replicates))"

definition cells :: "cell list" where
  "cells = cells_of plant_extracts bacteria concentrations"

text \<open>A cell on which the loop body raises nothing: both keys are present and the
  standard deviation is not negative.\<close>

fun ok_cell :: "cell \<Rightarrow> bool" where
  "ok_cell (p, b, c, r) =
     (case plant_effectiveness p of
        None \<Rightarrow> False
      | Some prof \<Rightarrow> bacterial_resistance b \<noteq> None \<and> 0 \<le> variance prof)"

text \<open>The row of a cell, given the normal deviate \<open>g\<close>, the clock reading \<open>t\<close> and the
  raw uniform draw \<open>u\<close> that its iteration consumes.\<close>

fun row :: "cell \<Rightarrow> real \<Rightarrow> int \<Rightarrow> nat \<Rightarrow> measurement" where
  "row (p, b, c, r) g t u =
     (let prof = the (plant_effectiveness p);
          z = inhibition_zone (base prof) c (the (bacterial_resistance b)) (variance prof * g)
      in \<lparr>Plant_Extract = p, Bacteria = b, Concentration_mg_mL = c, Replicate = r + 1,
          Inhibition_Zone_mm = round2 z, Activity_Level = activity_level z,
          Test_Date = t - timedelta_days (1 + int (u mod 30))\<rparr>)"

fun rows :: "cell list \<Rightarrow> real stream \<Rightarrow> int stream \<Rightarrow> nat stream \<Rightarrow> measurement list" where
  "rows [] gs ts us = []"
| "rows (x # xs) gs ts us = row x (shd gs) (shd ts) (shd us) # rows xs (stl gs) (stl ts) (stl us)"

text \<open>The world after \<open>n\<close> iterations: each has taken one draw of each source and one
  reading of the clock.\<close>

definition advance :: "nat \<Rightarrow> world \<Rightarrow> world" where
  "advance n w = w\<lparr>np_random := sdrop n (np_random w), py_random := sdrop n (py_random w),
                   clock := sdrop n (clock w)\<rparr>"

text \<open>The loop body iterated over a list of cells.\<close>

fun run :: "cell list \<Rightarrow> measurement list \<times> world \<Rightarrow> error + (measurement list \<times> world)" where
  "run [] s = Inr s"
| "run ((p, b, c, r) # xs) s =
     (case loop_body p b c r s of Inl e \<Rightarrow> Inl e | Inr s' \<Rightarrow> run xs s')"

definition frame :: "world \<Rightarrow> measurement list" where
  "frame w = rows cells (np_random w) (clock w) (py_random w)"

definition final_world :: "world \<Rightarrow> world" where
  "final_world w =
     print (''Data saved to '' @ [CHR 0x27] @ ''antibacterial_data.csv'' @ [CHR 0x27])
       (print (''Generated '' @ str_nat (length (frame w)) @ '' data points'')
          (to_csv (frame w) ''antibacterial_data.csv'' (advance (length cells) w)))"

text \<open>The four categorical fields of a row, and the row without its date.\<close>

definition key :: "measurement \<Rightarrow> string \<times> string \<times> int \<times> int" where
  "key m = (Plant_Extract m, Bacteria m, Concentration_mg_mL m, Replicate m)"

definition undated :: "measurement \<Rightarrow> (string \<times> string \<times> int \<times> int) \<times> real \<times> string" where
  "undated m = (key m, Inhibition_Zone_mm m, Activity_Level m)"

text \<open>Worlds for the concrete runs: every draw and every clock reading is 0; the same
  with every normal deviate 0.9992; the same with the clock at 1.\<close>

definition quiet_world :: world where
  "quiet_world = \<lparr>np_random = sconst 0, py_random = sconst 0, clock = sconst 0,
                   files = Map.empty, stdout = []\<rparr>"


definition later_world :: world where
  "later_world = quiet_world\<lparr>clock := sconst 1\<rparr>"

section \<open>The loops compute the rows\<close>

lemma run_append:
  "run (xs @ ys) s = (case run xs s of Inl e \<Rightarrow> Inl e | Inr s' \<Rightarrow> run ys s')"
  by (induction xs arbitrary: s) (auto split: sum.splits)

lemma replicate_loop_run:
  "replicate_loop p b c rs s = run (map (\<lambda>r. (p, b, c, r)) rs) s"
  by (induction rs arbitrary: s) (auto split: sum.splits)

lemma concentration_loop_run:
  "concentration_loop p b cs s = run (map (\<lambda>(c, r). (p, b, c, r)) (List.product cs replicates)) s"
  by (induction cs arbitrary: s) (auto simp: run_append replicate_loop_run comp_def split: sum.splits)

lemma bacteria_loop_run:
  "bacteria_loop p bs cs s = run (map (Pair p) (List.product bs (List.product cs replicates))) s"
  by (induction bs arbitrary: s)
     (auto simp: run_append concentration_loop_run comp_def case_prod_unfold split: sum.splits)

lemma plant_loop_run: "plant_loop ps bs cs s = run (cells_of ps bs cs) s"
  unfolding cells_of_def
  by (induction ps arbitrary: s) (auto simp: run_append bacteria_loop_run split: sum.splits)

lemma loop_body_ok:
  "ok_cell (p, b, c, r) \<Longrightarrow>
   loop_body p b c r (data, w) =
     Inr (data @ [row (p, b, c, r) (shd (np_random w)) (shd (clock w)) (shd (py_random w))],
          advance 1 w)"
  by (auto simp: normal_def now_def randint_def advance_def Let_def split: option.splits)

lemma advance_Suc: "advance n (advance 1 w) = advance (Suc n) w"
  by (simp add: advance_def)

lemma run_rows:
  "\<forall>x\<in>set xs. ok_cell x \<Longrightarrow>
   run xs (data, w) =
     Inr (data @ rows xs (np_random w) (clock w) (py_random w), advance (length xs) w)"
proof (induction xs arbitrary: data w)
  case Nil
  show ?case by (simp add: advance_def)
next
  case (Cons x xs)
  obtain p b c r where x: "x = (p, b, c, r)" by (cases x) auto
  from Cons.prems have ok: "ok_cell (p, b, c, r)" and rest: "\<forall>y\<in>set xs. ok_cell y"
    by (simp_all add: x)
  show ?case
    unfolding x run.simps loop_body_ok [OF ok]
    by (simp add: Cons.IH [OF rest] advance_Suc) (simp add: advance_def)
qed

lemma length_rows: "length (rows xs gs ts us) = length xs"
  by (induction xs arbitrary: gs ts us) auto

lemma rows_nth:
  "k < length xs \<Longrightarrow> rows xs gs ts us ! k = row (xs ! k) (gs !! k) (ts !! k) (us !! k)"
proof (induction xs arbitrary: gs ts us k)
  case Nil
  then show ?case by simp
next
  case (Cons x xs)
  then show ?case by (cases k) auto
qed

text \<open>The fields of a row; from here on \<open>row\<close> is opened only on request.\<close>

lemma row_fields:
  "Plant_Extract (row (p, b, c, r) g t u) = p"
  "Bacteria (row (p, b, c, r) g t u) = b"
  "Concentration_mg_mL (row (p, b, c, r) g t u) = c"
  "Replicate (row (p, b, c, r) g t u) = r + 1"
  "Inhibition_Zone_mm (row (p, b, c, r) g t u) =
     round2 (inhibition_zone (base (the (plant_effectiveness p))) c (the (bacterial_resistance b))
       (variance (the (plant_effectiveness p)) * g))"
  "Activity_Level (row (p, b, c, r) g t u) =
     activity_level (inhibition_zone (base (the (plant_effectiveness p))) c
       (the (bacterial_resistance b)) (variance (the (plant_effectiveness p)) * g))"
  "Test_Date (row (p, b, c, r) g t u) = t - timedelta_days (1 + int (u mod 30))"
  by (simp_all add: Let_def)

declare row.simps [simp del]

lemma key_row: "key (row (p, b, c, r) g t u) = (p, b, c, r + 1)"
  by (simp add: key_def row_fields)

lemma map_key_rows:
  "map key (rows xs gs ts us) = map (\<lambda>(p, b, c, r). (p, b, c, r + 1)) xs"
proof (induction xs arbitrary: gs ts us)
  case Nil
  show ?case by simp
next
  case (Cons x xs)
  obtain p b c r where "x = (p, b, c, r)" by (cases x) auto
  with Cons show ?case by (simp add: key_row)
qed

subsection \<open>The tables\<close>

lemma length_plant_extracts: "length plant_extracts = 10"
  by (simp add: plant_extracts_def)

lemma length_bacteria: "length bacteria = 8"
  by (simp add: bacteria_def)

lemma length_concentrations: "length concentrations = 5"
  by (simp add: concentrations_def)

lemma length_replicates: "length replicates = 3"
  by (simp add: replicates_def)

lemma length_cells: "length cells = 1200"
  by (simp add: cells_def cells_of_def length_plant_extracts length_bacteria
      length_concentrations length_replicates)

lemma plant_all:
  "\<forall>p\<in>set plant_extracts.
     (case plant_effectiveness p of None \<Rightarrow> False | Some prof \<Rightarrow> 0 \<le> variance prof)"
  by (simp add: plant_extracts_def plant_effectiveness_def)

lemma bacteria_all:
  "\<forall>b\<in>set bacteria. (case bacterial_resistance b of None \<Rightarrow> False | Some rf \<Rightarrow> 0 < rf)"
  by (simp add: bacteria_def bacterial_resistance_def)


lemma cells_ok: "\<forall>x\<in>set cells. ok_cell x"
proof
  fix x assume "x \<in> set cells"
  then obtain p b c r where x: "x = (p, b, c, r)" and p: "p \<in> set plant_extracts"
    and b: "b \<in> set bacteria"
    by (auto simp: cells_def cells_of_def)
  from plant_all p bacteria_all b show "ok_cell x"
    unfolding x by (auto split: option.splits)
qed

lemma replicates_nth: "r < 3 \<Longrightarrow> replicates ! r = int r"
proof -
  assume "r < 3"
  then have "r = 0 \<or> r = 1 \<or> r = 2" by arith
  then show ?thesis by (auto simp: replicates_def)
qed

lemma cells_nth:
  assumes "k < 1200"
  shows "cells ! k = (plant_extracts ! (k div 120), bacteria ! (k mod 120 div 15),
                      concentrations ! (k mod 15 div 3), int (k mod 3))"
proof -
  have m1: "k mod 120 mod 15 = k mod 15" by (simp add: mod_mod_cancel)
  have m2: "k mod 15 mod 3 = k mod 3" by (simp add: mod_mod_cancel)
  have "cells ! k = (plant_extracts ! (k div 120),
          List.product bacteria (List.product concentrations replicates) ! (k mod 120))"
    using assms unfolding cells_def cells_of_def
    by (simp add: product_nth length_plant_extracts length_bacteria
      length_concentrations length_replicates)
  also have "List.product bacteria (List.product concentrations replicates) ! (k mod 120)
      = (bacteria ! (k mod 120 div 15), List.product concentrations replicates ! (k mod 15))"
    by (simp add: product_nth length_bacteria length_concentrations length_replicates m1)
  also have "List.product concentrations replicates ! (k mod 15)
      = (concentrations ! (k mod 15 div 3), int (k mod 3))"
    by (simp add: product_nth length_concentrations length_replicates m2 replicates_nth)
  finally show ?thesis .
qed

lemma distinct_cells: "distinct cells"
  unfolding cells_def cells_of_def
  by (intro distinct_product) (simp_all add: plant_extracts_def bacteria_def
      concentrations_def replicates_def)

subsection \<open>The run on the tables\<close>

lemma plant_loop_cells:
  "plant_loop plant_extracts bacteria concentrations ([], w) =
     Inr (frame w, advance (length cells) w)"
  unfolding plant_loop_run cells_def [symmetric] frame_def
  using run_rows [OF cells_ok, of "[]" w] by simp

lemma generate_eq: "generate_antibacterial_data w = Inr (frame w, final_world w)"
  unfolding generate_antibacterial_data_def generate_with_def plant_loop_cells final_world_def
  by (simp add: Let_def)

lemma length_frame: "length (frame w) = 1200"
  by (simp add: frame_def length_rows length_cells)

lemma frame_nth:
  "k < 1200 \<Longrightarrow>
   frame w ! k = row (cells ! k) (np_random w !! k) (clock w !! k) (py_random w !! k)"
  by (simp add: frame_def rows_nth length_cells)

subsection \<open>Rounding and the logarithm\<close>

lemma rint_ge_floor: "\<lfloor>x\<rfloor> \<le> rint x"
  by (simp add: rint_def Let_def)


lemma rint_of_int: "rint (of_int n) = n"
  by (simp add: rint_def Let_def)



lemma round2_nonneg: "0 \<le> x \<Longrightarrow> 0 \<le> round2 x"
proof -
  assume "0 \<le> x"
  then have "(0::int) \<le> \<lfloor>x * 100\<rfloor>" by simp
  with rint_ge_floor [of "x * 100"] have "0 \<le> rint (x * 100)" by linarith
  then show ?thesis by (simp add: round2_def)
qed

lemma round2_of_int: "round2 (of_int n) = of_int n"
proof -
  have "rint (of_int n * 100) = n * 100"
    using rint_of_int [of "n * 100"] by simp
  then show ?thesis by (simp add: round2_def)
qed



lemma inhibition_zone_nonneg: "0 \<le> inhibition_zone b c rf noise"
  by (simp add: inhibition_zone_def)

lemma conc_effect_10: "conc_effect 10 = 0"
  by (simp add: conc_effect_def)

lemma conc_effect_mono: "0 < c1 \<Longrightarrow> c1 \<le> c2 \<Longrightarrow> conc_effect c1 \<le> conc_effect c2"
  by (simp add: conc_effect_def divide_right_mono)

lemma log10_2_lower: "3 / 10 < log 10 (2::real)"
proof -
  have "(10::real) powr (3 / 10) < 2"
  proof -
    have "((10::real) powr (3 / 10)) ^ 10 = 10 powr 3"
      by (simp add: powr_power)
    also have "\<dots> = 1000" by simp
    also have "\<dots> < (2::real) ^ 10" by simp
    finally show ?thesis
      using power_less_imp_less_base [of "10 powr (3 / 10)" 10 "2::real"] by simp
  qed
  moreover have "(3 / 10 < log 10 (2::real)) = (10 powr (3 / 10) < (2::real))"
    by (rule less_log_iff) simp_all
  ultimately show ?thesis by (simp only:)
qed

lemma log10_2_upper: "log 10 (2::real) < 28 / 93"
proof -
  have "(2::real) < 10 powr (28 / 93)"
  proof -
    have "((10::real) powr (28 / 93)) ^ 93 = 10 powr 28"
      by (simp add: powr_power)
    also have "\<dots> = 10 ^ 28" by simp
    finally have "(2::real) ^ 93 < (10 powr (28 / 93)) ^ 93" by simp
    then show ?thesis
      using power_less_imp_less_base [of "2::real" 93 "10 powr (28 / 93)"] by simp
  qed
  moreover have "(log 10 (2::real) < 28 / 93) = ((2::real) < 10 powr (28 / 93))"
    by (rule log_less_iff) simp_all
  ultimately show ?thesis by (simp only:)
qed

lemma log10_20: "log 10 (20::real) = 1 + log 10 2"
proof -
  have "log 10 (20::real) = log 10 (10 * 2)" by simp
  also have "\<dots> = log 10 10 + log 10 2" by (rule log_mult_pos) simp_all
  finally show ?thesis by simp
qed

subsection \<open>The first row of a run\<close>

lemma frame_0:
  "frame w ! 0 = row (cells ! 0) (shd (np_random w)) (shd (clock w)) (shd (py_random w))"
  using frame_nth [of 0 w] by simp

lemma cells_0: "cells ! 0 = (''Garlic (Allium sativum)'', ''Escherichia coli'', 10, 0)"
  using cells_nth [of 0] by (simp add: plant_extracts_def bacteria_def concentrations_def)

lemma garlic: "plant_effectiveness ''Garlic (Allium sativum)'' = Some \<lparr>base = 15, variance = 5\<rparr>"
  by (simp add: plant_effectiveness_def)

lemma ecoli: "bacterial_resistance ''Escherichia coli'' = Some 1"
  by (simp add: bacterial_resistance_def)

lemma quiet_snth:
  "np_random quiet_world !! k = 0" "py_random quiet_world !! k = 0" "clock quiet_world !! k = 0"
  by (simp_all add: quiet_world_def)

lemma quiet_shd:
  "shd (np_random quiet_world) = 0" "shd (py_random quiet_world) = 0"
  "shd (clock quiet_world) = 0"
  by (simp_all add: quiet_world_def)

lemma zone_15: "inhibition_zone 15 10 1 0 = 15"
  by (simp add: inhibition_zone_def conc_effect_def)

lemma round2_15: "round2 15 = 15"
  using round2_of_int [of 15] by simp

lemma frame_quiet_0:
  "frame quiet_world ! 0 =
     \<lparr>Plant_Extract = ''Garlic (Allium sativum)'', Bacteria = ''Escherichia coli'',
      Concentration_mg_mL = 10, Replicate = 1, Inhibition_Zone_mm = 15,
      Activity_Level = ''Moderate'', Test_Date = - 86400000000\<rparr>"
  by (simp add: frame_0 cells_0 quiet_shd row.simps garlic ecoli Let_def zone_15 round2_15
      activity_level_def timedelta_days_def)

section \<open>The properties of the generator\<close>

subsection \<open>Cardinality\<close>

lemma map_key_frame: "map key (frame w) = map (\<lambda>(p, b, c, r). (p, b, c, r + 1)) cells"
  by (simp add: frame_def map_key_rows)

lemma distinct_keys: "distinct (map key (frame w))"
  unfolding map_key_frame distinct_map
  by (auto simp: distinct_cells inj_on_def)

lemma replicate_range: "m \<in> set (frame w) \<Longrightarrow> Replicate m \<in> {1, 2, 3}"
proof -
  assume "m \<in> set (frame w)"
  then have "key m \<in> set (map key (frame w))" by simp
  then obtain p b c r where x: "(p, b, c, r) \<in> set cells" and k: "key m = (p, b, c, r + 1)"
    unfolding map_key_frame by auto
  from x have "r \<in> set replicates" by (auto simp: cells_def cells_of_def)
  then have "r + 1 \<in> {1, 2, 3}" by (auto simp: replicates_def)
  with k show ?thesis by (simp add: key_def)
qed

text \<open>
  Claim C2. On the tables of the source (10 extracts, 8 bacteria, 5 concentrations,
  3 replicates) a run returns, from every world, exactly 10 * 8 * 5 * 3 = 1200 rows; no two
  rows have the same (extract, bacterium, concentration, replicate), and every replicate
  index is 1, 2 or 3.
\<close>

theorem cardinality_1200:
  "\<exists>df w'. generate_antibacterial_data w = Inr (df, w') \<and>
     length df = length plant_extracts * length bacteria * length concentrations * 3 \<and>
     length df = 1200 \<and>
     distinct (map key df) \<and>
     (\<forall>m\<in>set df. Replicate m \<in> {1, 2, 3})"
proof (intro exI conjI)
  show "generate_antibacterial_data w = Inr (frame w, final_world w)" by (rule generate_eq)
  show "length (frame w) = length plant_extracts * length bacteria * length concentrations * 3"
    by (simp add: length_frame length_plant_extracts length_bacteria length_concentrations)
  show "length (frame w) = 1200" by (rule length_frame)
  show "distinct (map key (frame w))" by (rule distinct_keys)
  show "\<forall>m\<in>set (frame w). Replicate m \<in> {1, 2, 3}" using replicate_range by blast
qed

theorem cardinality_1200_witness:
  "\<exists>df w'. generate_antibacterial_data quiet_world = Inr (df, w') \<and> length df = 1200 \<and>
     distinct (map key df) \<and> df ! 0 \<in> set df \<and> Replicate (df ! 0) = 1 \<and>
     Replicate (df ! 0) \<in> {1, 2, 3}"
proof -
  from cardinality_1200 [of quiet_world] obtain df w' where
    g: "generate_antibacterial_data quiet_world = Inr (df, w')" and l: "length df = 1200"
    and d: "distinct (map key df)" and r: "\<forall>m\<in>set df. Replicate m \<in> {1, 2, 3}"
    by blast
  from g have df: "df = frame quiet_world" by (simp add: generate_eq)
  from l have m: "df ! 0 \<in> set df" by simp
  have "Replicate (df ! 0) = 1" unfolding df by (simp add: frame_quiet_0)
  with g l d m r show ?thesis by blast
qed

subsection \<open>Order of emission\<close>

text \<open>
  Claim C10. The rows come in the order of the nested loops: the extract varies slowest,
  then the bacterium, then the concentration (10, 25, 50, 100, 200), then the replicate
  (1, 2, 3). The categorical fields of row \<open>k\<close> are a function of \<open>k\<close> alone: the
  right-hand side does not mention the world, so no draw and no clock reading changes them.
\<close>

theorem emission_order:
  "\<exists>df w'. generate_antibacterial_data w = Inr (df, w') \<and>
     map key df =
       map (\<lambda>k. (plant_extracts ! (k div 120), bacteria ! (k mod 120 div 15),
                 concentrations ! (k mod 15 div 3), int (k mod 3) + 1)) [0..<1200] \<and>
     concentrations = [10, 25, 50, 100, 200]"
proof (intro exI conjI)
  show "concentrations = [10, 25, 50, 100, 200]" by (rule concentrations_def)
next
  show "generate_antibacterial_data w = Inr (frame w, final_world w)" by (rule generate_eq)
  show "map key (frame w) =
       map (\<lambda>k. (plant_extracts ! (k div 120), bacteria ! (k mod 120 div 15),
                 concentrations ! (k mod 15 div 3), int (k mod 3) + 1)) [0..<1200]"
  proof (rule nth_equalityI)
    show "length (map key (frame w)) = length (map (\<lambda>k. (plant_extracts ! (k div 120),
        bacteria ! (k mod 120 div 15), concentrations ! (k mod 15 div 3), int (k mod 3) + 1))
        [0..<1200])"
      by (simp add: length_frame)
  next
    fix i assume "i < length (map key (frame w))"
    then have i: "i < 1200" by (simp add: length_frame)
    then have "map key (frame w) ! i = key (frame w ! i)" by (simp add: length_frame)
    also have "\<dots> = (plant_extracts ! (i div 120), bacteria ! (i mod 120 div 15),
                 concentrations ! (i mod 15 div 3), int (i mod 3) + 1)"
      by (simp add: frame_nth [OF i] cells_nth [OF i] key_row)
    finally show "map key (frame w) ! i = map (\<lambda>k. (plant_extracts ! (k div 120),
        bacteria ! (k mod 120 div 15), concentrations ! (k mod 15 div 3), int (k mod 3) + 1))
        [0..<1200] ! i"
      using i by simp
  qed
qed

subsection \<open>Non-negativity\<close>

lemma rows_zone_nonneg: "m \<in> set (rows xs gs ts us) \<Longrightarrow> 0 \<le> Inhibition_Zone_mm m"
proof (induction xs arbitrary: gs ts us)
  case Nil
  then show ?case by simp
next
  case (Cons x xs)
  obtain p b c r where "x = (p, b, c, r)" by (cases x) auto
  with Cons show ?case
    by (auto simp: row_fields round2_nonneg inhibition_zone_nonneg)
qed

text \<open>
  Claim C3. Whatever the random sources give, every row of a run stores a non-negative
  \<open>Inhibition_Zone_mm\<close>: the value is clamped at 0 after the noise, and rounding keeps
  it there.
\<close>

theorem zone_nonneg:
  "\<exists>df w'. generate_antibacterial_data w = Inr (df, w') \<and>
     (\<forall>m\<in>set df. 0 \<le> Inhibition_Zone_mm m)"
proof (intro exI conjI)
  show "generate_antibacterial_data w = Inr (frame w, final_world w)" by (rule generate_eq)
  show "\<forall>m\<in>set (frame w). 0 \<le> Inhibition_Zone_mm m"
    unfolding frame_def using rows_zone_nonneg by blast
qed

text \<open>With every normal deviate at -10 the first row is 15 - 50 before the clamp.\<close>

lemma zone_clamped: "inhibition_zone 15 10 1 (- 50) = 0"
  by (simp add: inhibition_zone_def conc_effect_def)

lemma round2_0: "round2 0 = 0"
  using round2_of_int [of 0] by simp

theorem zone_nonneg_witness:
  "\<exists>df w'. generate_antibacterial_data (quiet_world\<lparr>np_random := sconst (- 10)\<rparr>) = Inr (df, w') \<and>
     df ! 0 \<in> set df \<and> Inhibition_Zone_mm (df ! 0) = 0 \<and> 0 \<le> Inhibition_Zone_mm (df ! 0)"
proof -
  let ?w = "quiet_world\<lparr>np_random := sconst (- 10)\<rparr>"
  from zone_nonneg [of ?w] obtain df w' where
    g: "generate_antibacterial_data ?w = Inr (df, w')"
    and r: "\<forall>m\<in>set df. 0 \<le> Inhibition_Zone_mm m"
    by blast
  from g have df: "df = frame ?w" by (simp add: generate_eq)
  then have m: "df ! 0 \<in> set df" by (simp add: length_frame)
  have "Inhibition_Zone_mm (df ! 0) = 0" unfolding df
    by (simp add: frame_0 cells_0 row_fields garlic ecoli zone_clamped round2_0)
  with g m r show ?thesis by auto
qed

subsection \<open>Tier and stored value\<close>










subsection \<open>The value before the noise\<close>


lemma base_nonneg:
  "\<forall>p\<in>set plant_extracts. 0 \<le> base (the (plant_effectiveness p))"
  by (simp add: plant_extracts_def plant_effectiveness_def)

lemma resistance_pos:
  "\<forall>b\<in>set bacteria. 0 < the (bacterial_resistance b)"
  by (simp add: bacteria_def bacterial_resistance_def)

lemma cells_member:
  assumes "k < 1200" and "cells ! k = (p, b, c, r)"
  shows "p \<in> set plant_extracts" and "b \<in> set bacteria" and "c \<in> set concentrations"
proof -
  from assms(1) have "cells ! k \<in> set cells" by (simp add: length_cells)
  with assms(2) have "(p, b, c, r) \<in> set cells" by simp
  then show "p \<in> set plant_extracts" and "b \<in> set bacteria" and "c \<in> set concentrations"
    by (auto simp: cells_def cells_of_def)
qed

text \<open>
  Claim C4. For every row \<open>k\<close> of a run, with the base and the resistance factor that
  the tables give for its extract and bacterium and with its concentration \<open>c\<close>, the value
  before the noise is \<open>pre = (base + log10 (c / 10) * 3) * resistance_factor\<close>: the stored
  value is \<open>pre\<close> plus the noise of that row (the standard deviation times the \<open>k\<close>-th
  normal deviate), clamped at 0 and rounded. At the reference concentration 10 the
  logarithmic term is 0 and \<open>pre = base * resistance_factor\<close>, which with a zero deviate
  is the value stored (rounded).
\<close>

theorem zone_formula:
  "\<exists>df w'. generate_antibacterial_data w = Inr (df, w') \<and>
     (\<forall>k<1200.
        let m = df ! k;
            prof = the (plant_effectiveness (Plant_Extract m));
            rf = the (bacterial_resistance (Bacteria m));
            c = Concentration_mg_mL m;
            pre = (base prof + log 10 (real_of_int c / 10) * 3) * rf
        in Inhibition_Zone_mm m = round2 (max 0 (pre + variance prof * (np_random w !! k))) \<and>
           (c = 10 \<longrightarrow> pre = base prof * rf) \<and>
           (c = 10 \<and> np_random w !! k = 0 \<longrightarrow> Inhibition_Zone_mm m = round2 (base prof * rf)))"
proof (intro exI conjI allI impI)
  show "generate_antibacterial_data w = Inr (frame w, final_world w)" by (rule generate_eq)
next
  fix k :: nat assume k: "k < 1200"
  obtain p b c r where x: "cells ! k = (p, b, c, r)" by (cases "cells ! k") auto
  from cells_member [OF k x] base_nonneg resistance_pos
  have "0 \<le> base (the (plant_effectiveness p))" and "0 < the (bacterial_resistance b)"
    by auto
  then have pos: "0 \<le> base (the (plant_effectiveness p)) * the (bacterial_resistance b)"
    by simp
  show "let m = frame w ! k;
            prof = the (plant_effectiveness (Plant_Extract m));
            rf = the (bacterial_resistance (Bacteria m));
            c = Concentration_mg_mL m;
            pre = (base prof + log 10 (real_of_int c / 10) * 3) * rf
        in Inhibition_Zone_mm m = round2 (max 0 (pre + variance prof * (np_random w !! k))) \<and>
           (c = 10 \<longrightarrow> pre = base prof * rf) \<and>
           (c = 10 \<and> np_random w !! k = 0 \<longrightarrow> Inhibition_Zone_mm m = round2 (base prof * rf))"
    unfolding Let_def frame_nth [OF k] x row_fields
    using pos by (simp add: inhibition_zone_def conc_effect_def max_def)
qed

theorem zone_formula_witness:
  "\<exists>df w'. generate_antibacterial_data quiet_world = Inr (df, w') \<and> (0::nat) < 1200 \<and>
     Concentration_mg_mL (df ! 0) = 10 \<and> np_random quiet_world !! 0 = 0 \<and>
     Inhibition_Zone_mm (df ! 0) = round2 (15 * 1) \<and> Inhibition_Zone_mm (df ! 0) = 15"
proof -
  from zone_formula [of quiet_world] obtain df w' where
    g: "generate_antibacterial_data quiet_world = Inr (df, w')"
    and t: "\<forall>k<1200.
        let m = df ! k;
            prof = the (plant_effectiveness (Plant_Extract m));
            rf = the (bacterial_resistance (Bacteria m));
            c = Concentration_mg_mL m;
            pre = (base prof + log 10 (real_of_int c / 10) * 3) * rf
        in Inhibition_Zone_mm m = round2 (max 0 (pre + variance prof * (np_random quiet_world !! k))) \<and>
           (c = 10 \<longrightarrow> pre = base prof * rf) \<and>
           (c = 10 \<and> np_random quiet_world !! k = 0 \<longrightarrow> Inhibition_Zone_mm m = round2 (base prof * rf))"
    by blast
  from g have df: "df = frame quiet_world" by (simp add: generate_eq)
  have c: "Concentration_mg_mL (df ! 0) = 10" unfolding df by (simp add: frame_quiet_0)
  have n: "np_random quiet_world !! 0 = 0" by (rule quiet_snth)
  from t [rule_format, of 0, simplified Let_def] c n
  have "Inhibition_Zone_mm (df ! 0) =
      round2 (base (the (plant_effectiveness (Plant_Extract (df ! 0)))) *
              the (bacterial_resistance (Bacteria (df ! 0))))"
    by simp
  then have "Inhibition_Zone_mm (df ! 0) = round2 (15 * 1)"
    unfolding df by (simp add: frame_quiet_0 garlic ecoli)
  moreover have "Inhibition_Zone_mm (df ! 0) = 15" unfolding df by (simp add: frame_quiet_0)
  ultimately show ?thesis using g c n by auto
qed

subsection \<open>Clove against Pseudomonas aeruginosa at 200 mg/mL\<close>

lemma cells_1137:
  "cells ! 1137 = (''Clove (Syzygium aromaticum)'', ''Pseudomonas aeruginosa'', 200, 0)"
  using cells_nth [of 1137] by (simp add: plant_extracts_def bacteria_def concentrations_def)

lemma clove: "plant_effectiveness ''Clove (Syzygium aromaticum)'' = Some \<lparr>base = 19, variance = 3\<rparr>"
  by (simp add: plant_effectiveness_def)

lemma pseudomonas: "bacterial_resistance ''Pseudomonas aeruginosa'' = Some (6 / 10)"
  by (simp add: bacterial_resistance_def)

lemma clove_value_bounds:
  fixes v :: real
  assumes "v = (19 + log 10 20 * 3) * (6 / 10)"
  shows "1374 / 100 < v" and "v < 13745 / 1000"
  using assms log10_2_lower log10_2_upper unfolding log10_20 by simp_all

lemma rint_between:
  assumes "of_int n \<le> y" and "y < of_int n + 1 / 2"
  shows "rint y = n"
proof -
  from assms have "\<lfloor>y\<rfloor> = n" by linarith
  with assms show ?thesis by (simp add: rint_def Let_def)
qed

lemma clove_zone:
  "inhibition_zone 19 200 (6 / 10) 0 = (19 + log 10 20 * 3) * (6 / 10)"
proof -
  have "0 \<le> (19 + log 10 20 * 3) * (6 / 10 :: real)"
    using clove_value_bounds(1) [OF refl] by simp
  then show ?thesis by (simp add: inhibition_zone_def conc_effect_def)
qed

lemma clove_zone_normal:
  "inhibition_zone 19 200 (3 / 5) 0 = (19 + log 10 20 * 3) * (6 / 10)"
  using clove_zone by simp

lemma clove_round2: "round2 ((19 + log 10 20 * 3) * (6 / 10)) = 1374 / 100"
proof -
  define v :: real where "v = (19 + log 10 20 * 3) * (6 / 10)"
  from clove_value_bounds [OF v_def] have "of_int 1374 \<le> v * 100" and "v * 100 < of_int 1374 + 1 / 2"
    by simp_all
  then have "rint (v * 100) = 1374" by (rule rint_between)
  then show ?thesis unfolding v_def [symmetric] by (simp add: round2_def)
qed

lemma clove_level: "activity_level ((19 + log 10 20 * 3) * (6 / 10)) = ''Low''"
  using clove_value_bounds [OF refl] by (simp add: activity_level_def)

text \<open>
  Claim C5. Row 1137 of a run is the first replicate of Clove (base 19) against
  Pseudomonas aeruginosa (resistance factor 0.6) at 200 mg/mL. With its noise at 0 the
  computed value is \<open>v = (19 + log10 20 * 3) * 0.6\<close>, which lies in [10, 15) and within
  0.01 of 13.75 (it is 13.7419...); the row is classified Low and stores \<open>v\<close> rounded
  to 2 decimals, 13.74.
\<close>

theorem clove_pseudomonas_200:
  assumes "np_random w !! 1137 = 0"
  shows "\<exists>df w'. generate_antibacterial_data w = Inr (df, w') \<and>
     key (df ! 1137) = (''Clove (Syzygium aromaticum)'', ''Pseudomonas aeruginosa'', 200, 1) \<and>
     plant_effectiveness ''Clove (Syzygium aromaticum)'' = Some \<lparr>base = 19, variance = 3\<rparr> \<and>
     bacterial_resistance ''Pseudomonas aeruginosa'' = Some (6 / 10) \<and>
     (let v = (19 + log 10 20 * 3) * (6 / 10) in
        10 \<le> v \<and> v < 15 \<and> \<bar>v - 1375 / 100\<bar> < 1 / 100 \<and>
        Activity_Level (df ! 1137) = activity_level v \<and>
        Activity_Level (df ! 1137) = ''Low'' \<and>
        Inhibition_Zone_mm (df ! 1137) = round2 v \<and>
        Inhibition_Zone_mm (df ! 1137) = 1374 / 100)"
proof (intro exI conjI)
  show "generate_antibacterial_data w = Inr (frame w, final_world w)" by (rule generate_eq)
  have f: "frame w ! 1137 = row (cells ! 1137) 0 (clock w !! 1137) (py_random w !! 1137)"
    using frame_nth [of 1137 w] assms by simp
  show "key (frame w ! 1137) =
      (''Clove (Syzygium aromaticum)'', ''Pseudomonas aeruginosa'', 200, 1)"
    by (simp add: f cells_1137 key_row)
  show "plant_effectiveness ''Clove (Syzygium aromaticum)'' = Some \<lparr>base = 19, variance = 3\<rparr>"
    by (rule clove)
  show "bacterial_resistance ''Pseudomonas aeruginosa'' = Some (6 / 10)"
    by (rule pseudomonas)
  have z: "Inhibition_Zone_mm (frame w ! 1137) = round2 ((19 + log 10 20 * 3) * (6 / 10))"
    by (simp add: f cells_1137 row_fields clove pseudomonas clove_zone_normal)
  have l: "Activity_Level (frame w ! 1137) = activity_level ((19 + log 10 20 * 3) * (6 / 10))"
    by (simp add: f cells_1137 row_fields clove pseudomonas clove_zone_normal)
  show "let v = (19 + log 10 20 * 3) * (6 / 10) in
        10 \<le> v \<and> v < 15 \<and> \<bar>v - 1375 / 100\<bar> < 1 / 100 \<and>
        Activity_Level (frame w ! 1137) = activity_level v \<and>
        Activity_Level (frame w ! 1137) = ''Low'' \<and>
        Inhibition_Zone_mm (frame w ! 1137) = round2 v \<and>
        Inhibition_Zone_mm (frame w ! 1137) = 1374 / 100"
    unfolding Let_def z l clove_level clove_round2
    using clove_value_bounds [OF refl] by simp
qed

theorem clove_pseudomonas_200_witness:
  "np_random quiet_world !! 1137 = 0 \<and>
   (\<exists>df w'. generate_antibacterial_data quiet_world = Inr (df, w') \<and>
     Activity_Level (df ! 1137) = ''Low'' \<and> Inhibition_Zone_mm (df ! 1137) = 1374 / 100)"
proof -
  have h: "np_random quiet_world !! 1137 = 0" by (rule quiet_snth)
  from clove_pseudomonas_200 [OF h] h show ?thesis unfolding Let_def by blast
qed

subsection \<open>Monotone dose trend\<close>

text \<open>
  Claim C6. With the extract (its base \<open>b\<close>) and the bacterium (its resistance factor
  \<open>rf\<close>, positive) held fixed, the clamped value without noise,
  \<open>max 0 ((b + log10 (c / 10) * 3) * rf)\<close>, does not decrease when the concentration
  grows: for all positive concentrations \<open>c1 \<le> c2\<close>, so for every such pair of the table.
\<close>

theorem dose_monotone:
  assumes "0 < rf" and "0 < c1" and "c1 \<le> c2"
  shows "inhibition_zone b c1 rf 0 \<le> inhibition_zone b c2 rf 0 \<and>
         inhibition_zone b c1 rf 0 = max 0 ((b + log 10 (real_of_int c1 / 10) * 3) * rf)"
proof
  from conc_effect_mono [OF assms(2,3)] assms(1)
  have "(b + conc_effect c1) * rf \<le> (b + conc_effect c2) * rf"
    by (simp add: mult_right_mono)
  then show "inhibition_zone b c1 rf 0 \<le> inhibition_zone b c2 rf 0"
    by (simp add: inhibition_zone_def max_def)
  show "inhibition_zone b c1 rf 0 = max 0 ((b + log 10 (real_of_int c1 / 10) * 3) * rf)"
    by (simp add: inhibition_zone_def conc_effect_def)
qed

theorem dose_monotone_witness:
  "(0::real) < 1 \<and> (0::int) < 10 \<and> (10::int) \<le> 25 \<and>
   inhibition_zone 15 10 1 0 \<le> inhibition_zone 15 25 1 0 \<and>
   15 \<le> inhibition_zone 15 25 1 0"
proof -
  have "inhibition_zone 15 10 1 0 \<le> inhibition_zone 15 25 1 0"
    using dose_monotone [of 1 10 25 15] by simp
  then show ?thesis by (simp add: zone_15)
qed

subsection \<open>Effects of a run\<close>

lemma str_nat_1200: "str_nat 1200 = ''1200''"
  by simp

lemma final_world_fields:
  "files (final_world w) = (files w)(''antibacterial_data.csv'' \<mapsto> frame w)"
  "stdout (final_world w) =
     stdout w @ [''Generated 1200 data points'',
                 ''Data saved to '' @ [CHR 0x27] @ ''antibacterial_data.csv'' @ [CHR 0x27]]"
  "np_random (final_world w) = sdrop 1200 (np_random w)"
  "py_random (final_world w) = sdrop 1200 (py_random w)"
  "clock (final_world w) = sdrop 1200 (clock w)"
  by (simp_all add: final_world_def print_def to_csv_def advance_def length_frame length_cells
      del: str_nat.simps add: str_nat_1200)

lemma frame_ignores_files: "frame (w\<lparr>files := fs, stdout := out\<rparr>) = frame w"
  by (simp add: frame_def)

text \<open>
  Claim C7, amended. Computing the rows needs no file: a run in a world with other files
  and another standard output returns the same rows. But the run does more than return
  them: lines 108 to 110 write the rows to the file \<^verbatim>\<open>antibacterial_data.csv\<close>
  and print two lines, and the loops take 1200 draws from each random source and 1200
  readings of the clock. Nothing else of the world changes.
\<close>

theorem effects_of_run:
  "\<exists>df w'. generate_antibacterial_data w = Inr (df, w') \<and>
     files w' = (files w)(''antibacterial_data.csv'' \<mapsto> df) \<and>
     stdout w' =
       stdout w @ [''Generated 1200 data points'',
                   ''Data saved to '' @ [CHR 0x27] @ ''antibacterial_data.csv'' @ [CHR 0x27]] \<and>
     np_random w' = sdrop 1200 (np_random w) \<and>
     py_random w' = sdrop 1200 (py_random w) \<and>
     clock w' = sdrop 1200 (clock w) \<and>
     (\<forall>fs out. \<exists>v'. generate_antibacterial_data (w\<lparr>files := fs, stdout := out\<rparr>) = Inr (df, v'))"
proof (intro exI conjI allI)
  show "generate_antibacterial_data w = Inr (frame w, final_world w)" by (rule generate_eq)
  show "files (final_world w) = (files w)(''antibacterial_data.csv'' \<mapsto> frame w)"
    by (rule final_world_fields)
  show "stdout (final_world w) =
       stdout w @ [''Generated 1200 data points'',
                   ''Data saved to '' @ [CHR 0x27] @ ''antibacterial_data.csv'' @ [CHR 0x27]]"
    by (rule final_world_fields)
  show "np_random (final_world w) = sdrop 1200 (np_random w)" by (rule final_world_fields)
  show "py_random (final_world w) = sdrop 1200 (py_random w)" by (rule final_world_fields)
  show "clock (final_world w) = sdrop 1200 (clock w)" by (rule final_world_fields)
  fix fs out
  show "generate_antibacterial_data (w\<lparr>files := fs, stdout := out\<rparr>) =
      Inr (frame w, final_world (w\<lparr>files := fs, stdout := out\<rparr>))"
    using generate_eq [of "w\<lparr>files := fs, stdout := out\<rparr>"]
    by (simp only: frame_ignores_files)
qed

text \<open>
  Claim C7 as stated fails: started in a world without files and with nothing printed,
  the run leaves the file \<^verbatim>\<open>antibacterial_data.csv\<close> holding its 1200 rows and
  two lines on the standard output.
\<close>

theorem no_side_effect_counterexample:
  "(case generate_antibacterial_data quiet_world of
      Inl e \<Rightarrow> False
    | Inr (df, w') \<Rightarrow>
        files quiet_world ''antibacterial_data.csv'' = None \<and>
        files w' ''antibacterial_data.csv'' = Some df \<and> length df = 1200 \<and>
        files w' \<noteq> files quiet_world \<and>
        stdout quiet_world = [] \<and> length (stdout w') = 2)"
proof -
  have a: "files quiet_world ''antibacterial_data.csv'' = None" by (simp add: quiet_world_def)
  have b: "files (final_world quiet_world) ''antibacterial_data.csv'' = Some (frame quiet_world)"
    by (simp add: final_world_fields)
  from a b have c: "files (final_world quiet_world) \<noteq> files quiet_world" by auto
  have d: "stdout quiet_world = []" by (simp add: quiet_world_def)
  then have e: "length (stdout (final_world quiet_world)) = 2" by (simp add: final_world_fields)
  show ?thesis by (simp add: generate_eq a b c d e length_frame)
qed

subsection \<open>Configuration\<close>







subsection \<open>Reproducibility\<close>

lemma undated_row:
  "undated (row x g t u) = undated (row x g t' u')"
  by (cases x) (simp add: undated_def key_def row_fields)

lemma undated_rows:
  "map undated (rows xs gs ts us) = map undated (rows xs gs ts' us')"
proof (induction xs arbitrary: gs ts us ts' us')
  case Nil
  show ?case by simp
next
  case (Cons x xs)
  show ?case using undated_row [of x "shd gs" "shd ts" "shd us" "shd ts'" "shd us'"]
    by (simp add: Cons.IH [of "stl gs" "stl ts" "stl us" "stl ts'" "stl us'"])
qed

text \<open>
  Claim C9, amended. Two runs that start from the same state of numpy's random source
  return rows that agree in every field but \<open>Test_Date\<close>; if the state of Python's
  random source and the readings of the clock are the same too, the rows are identical.
  The date of a row is \<^verbatim>\<open>datetime.now()\<close> minus a random number of days, so
  it depends on the time of the run and not on the random sources alone.
\<close>

theorem reproducible_up_to_clock:
  assumes "np_random w = np_random v"
  shows "\<exists>df dv w' v'. generate_antibacterial_data w = Inr (df, w') \<and>
     generate_antibacterial_data v = Inr (dv, v') \<and>
     map undated df = map undated dv \<and>
     (py_random w = py_random v \<and> clock w = clock v \<longrightarrow> df = dv)"
proof (intro exI conjI impI)
  show "generate_antibacterial_data w = Inr (frame w, final_world w)" by (rule generate_eq)
  show "generate_antibacterial_data v = Inr (frame v, final_world v)" by (rule generate_eq)
  show "map undated (frame w) = map undated (frame v)"
    unfolding frame_def assms by (rule undated_rows)
next
  assume "py_random w = py_random v \<and> clock w = clock v"
  with assms show "frame w = frame v" by (simp add: frame_def)
qed

lemma frame_later_0: "Test_Date (frame later_world ! 0) = 1 - 86400000000"
  by (simp add: frame_0 cells_0 row_fields later_world_def quiet_world_def timedelta_days_def)

text \<open>
  Claim C9 as stated fails: two runs from identical states of both random sources, the
  second with the clock one microsecond later, return different rows (the dates of the
  first rows differ).
\<close>

theorem reproducible_counterexample:
  "np_random quiet_world = np_random later_world \<and>
   py_random quiet_world = py_random later_world \<and>
   (case (generate_antibacterial_data quiet_world, generate_antibacterial_data later_world) of
      (Inr (df, w1), Inr (dv, w2)) \<Rightarrow> Test_Date (df ! 0) \<noteq> Test_Date (dv ! 0) \<and> df \<noteq> dv
    | _ \<Rightarrow> False)"
proof -
  have d: "Test_Date (frame quiet_world ! 0) \<noteq> Test_Date (frame later_world ! 0)"
    by (simp add: frame_quiet_0 frame_later_0)
  then have "frame quiet_world \<noteq> frame later_world" by auto
  with d show ?thesis by (simp add: generate_eq later_world_def)
qed

theorem reproducible_up_to_clock_witness:
  "np_random quiet_world = np_random later_world \<and>
   (\<exists>df dv w' v'. generate_antibacterial_data quiet_world = Inr (df, w') \<and>
     generate_antibacterial_data later_world = Inr (dv, v') \<and>
     map undated df = map undated dv \<and> undated (df ! 0) = undated (dv ! 0) \<and>
     undated (df ! 0) =
       ((''Garlic (Allium sativum)'', ''Escherichia coli'', 10, 1), 15, ''Moderate''))"
proof -
  have h: "np_random quiet_world = np_random later_world" by (simp add: later_world_def)
  from reproducible_up_to_clock [OF h] obtain df dv w' v' where
    g: "generate_antibacterial_data quiet_world = Inr (df, w')"
    and g': "generate_antibacterial_data later_world = Inr (dv, v')"
    and u: "map undated df = map undated dv"
    by blast
  from g have df: "df = frame quiet_world" by (simp add: generate_eq)
  from g' have dv: "dv = frame later_world" by (simp add: generate_eq)
  have "map undated df ! 0 = map undated dv ! 0" by (simp only: u)
  then have e: "undated (df ! 0) = undated (dv ! 0)"
    unfolding df dv by (simp add: length_frame)
  have "undated (df ! 0) =
       ((''Garlic (Allium sativum)'', ''Escherichia coli'', 10, 1), 15, ''Moderate'')"
    unfolding df by (simp add: frame_quiet_0 undated_def key_def)
  with h g g' u e show ?thesis by blast
qed

end
